theory Spec2Isabelle
  imports Complex_Main
begin

section \<open>Python strings\<close>

text \<open>
  A Python \<open>str\<close> is a sequence of Unicode code points; it is modelled as the list of
  their numbers. \<open>lit\<close> is the string of an ASCII literal.
\<close>

type_synonym codepoint = nat

type_synonym pystr = "codepoint list"

definition lit :: "string \<Rightarrow> pystr" where
  "lit s = map of_char s"

definition nl :: pystr where
  "nl = [0x0A]"

definition dquote :: pystr where
  "dquote = [0x22]"

definition bullet :: pystr where
  "bullet = [0x2022]"

text \<open>
  What \<open>s.upper()\<close>, \<open>s.lower()\<close>, \<open>s.strip()\<close> and the class \<open>\d\<close> of a regular
  expression do is decided by the Unicode character database of the Python that runs the
  program. That database is not part of the sources and changes from version to version,
  so it is a parameter of the model: \<open>upper\<close> and \<open>lower\<close> are the two methods on whole
  strings, \<open>isspace\<close> is the class of white space that \<open>strip\<close> removes, and \<open>is_digit\<close>
  is the class \<open>\d\<close> of a pattern on \<open>str\<close> (every Unicode decimal digit, not only
  \<open>0\<close> to \<open>9\<close>).
\<close>

record unicode =
  upper :: "pystr \<Rightarrow> pystr"
  lower :: "pystr \<Rightarrow> pystr"
  isspace :: "codepoint \<Rightarrow> bool"
  is_digit :: "codepoint \<Rightarrow> bool"

text \<open>\<open>s.strip()\<close>.\<close>

definition strip :: "unicode \<Rightarrow> pystr \<Rightarrow> pystr" where
  "strip U s = rev (dropWhile (isspace U) (rev (dropWhile (isspace U) s)))"

text \<open>\<open>kw in s\<close> on strings: \<open>kw\<close> occurs in \<open>s\<close> as a contiguous substring.\<close>

fun str_in :: "pystr \<Rightarrow> pystr \<Rightarrow> bool" where
  "str_in kw [] = (kw = [])"
| "str_in kw (c # cs) = (take (length kw) (c # cs) = kw \<or> str_in kw cs)"

text \<open>\<open>sep.join(xs)\<close> on a list of strings.\<close>

fun join :: "pystr \<Rightarrow> pystr list \<Rightarrow> pystr" where
  "join sep [] = []"
| "join sep [x] = x"
| "join sep (x # y # ys) = x @ sep @ join sep (y # ys)"

text \<open>Truth value of an optional string: \<open>None\<close> and \<open>""\<close> are false.\<close>

fun truthy :: "pystr option \<Rightarrow> bool" where
  "truthy None = False"
| "truthy (Some s) = (s \<noteq> [])"

section \<open>Exceptions\<close>

text \<open>
  The exceptions the modelled code can raise. \<open>CapabilityError\<close> stands for whatever the
  text-generation backend raises (network failure, unparsable JSON, a validation error of
  the response model); the handlers and the router never look at which exception it was.
\<close>

datatype py_error = CapabilityError | AttributeError | TypeError | NameError

section \<open>Data transfer objects (dtos.py)\<close>

datatype Intent = FAQ | ORDER_STATUS | UNCLEAR

text \<open>A float is modelled as a real number and a float literal as the decimal number it is
  written as; rounding is outside the model.\<close>

record RouterResponse =
  intent :: Intent
  confidence :: real
  entities :: "pystr \<rightharpoonup> pystr"
  reasoning :: pystr

text \<open>
  The order records file \<open>data/orders_database.json\<close> is not part of the sources. An
  order record has the fields that \<open>_format_order\<close> reads: \<open>order_id\<close> and \<open>status\<close>
  (read with \<open>order[...]\<close>), and \<open>items\<close>, \<open>tracking\<close>, \<open>delivery_date\<close> (read with
  \<open>order.get\<close>; \<open>None\<close> is a missing key or a JSON \<open>null\<close>). An item is a JSON
  object with string values or a plain string; a list of items may mix the two.
\<close>

datatype item = ItemDict "pystr \<rightharpoonup> pystr" | ItemStr pystr

record order =
  order_id :: pystr
  status :: pystr
  items :: "item list option"
  tracking :: "pystr option"
  delivery_date :: "pystr option"

text \<open>\<open>Dict[str, Any]\<close>, as far as the handlers build it: a dictionary of strings (the
  FAQ handler) or an order record (the order handler).\<close>

datatype data_dict = StrDict "pystr \<rightharpoonup> pystr" | OrderDict order

record AgentResponse =
  success :: bool
  message :: pystr
  data :: "data_dict option"
  needs_clarification :: bool

record FinalResponse =
  query :: pystr
  intent :: Intent
  confidence :: real
  response :: pystr
  escalated :: bool

section \<open>The text-generation capability (providers.py)\<close>

text \<open>
  A provider is an external service whose answers may differ from call to call. Its
  hidden state is a value of type \<open>'w\<close>, passed into every call and returned updated.
  \<open>generate prompt system_prompt\<close> returns text or raises; \<open>generate_json prompt
  system_prompt\<close> returns a validated \<open>RouterResponse\<close> or raises (the parsing of the
  backend's text into that response is not modelled: its outcome is what the provider
  returns here).

  \<open>unicode\<close> is the Unicode database of the running Python; no call changes it.

  \<open>handled\<close> is a log of the handler invocations, in order. It has no counterpart in the
  sources and no modelled function reads it; each \<open>handle\<close> appends its own entry on
  entry, so that "this call invoked no handler" can be stated.
\<close>

record 'w LLMProvider =
  generate :: "pystr \<Rightarrow> pystr option \<Rightarrow> 'w \<Rightarrow> (py_error + pystr) \<times> 'w"
  generate_json :: "pystr \<Rightarrow> pystr \<Rightarrow> 'w \<Rightarrow> (py_error + RouterResponse) \<times> 'w"

datatype handler_call = FAQ_handle pystr | Order_handle pystr "pystr option"

record 'w world =
  llm_state :: 'w
  unicode :: unicode
  handled :: "handler_call list"

section \<open>The FAQ handler (agents/faq_agent.py)\<close>

text \<open>
  The knowledge base file is not part of the sources. A topic's content has the two
  fields the handler reads; the base is the list of the dictionary's (topic, content)
  pairs in iteration order, and \<open>None\<close> when \<open>_load_data\<close> found no file.
\<close>

record content =
  "keywords" :: "pystr list"
  answer :: pystr

record 'w FAQAgent =
  llm :: "'w LLMProvider option"
  knowledge_base :: "(pystr \<times> content) list option"

definition FAQAgent_refine_system :: pystr where
  "FAQAgent_refine_system = lit ''You are a friendly customer service bot. Convert the factual answer into a natural, conversational response. Return ONLY the final response - no options, no variations, just one single answer.''"

definition FAQAgent_refine_prompt :: "pystr \<Rightarrow> pystr \<Rightarrow> pystr" where
  "FAQAgent_refine_prompt q ans =
     lit ''Customer asked: '' @ dquote @ q @ dquote @ nl @ nl @
     lit ''            Factual answer: '' @ ans @ nl @ nl @
     lit ''            Rewrite this as a single, friendly response. Give ONLY ONE response, nothing else:''"

text \<open>\<open>_refine\<close>: the bare \<open>except\<close> turns every failure of the call into the
  unrewritten answer.\<close>

definition FAQAgent_refine ::
  "'w LLMProvider \<Rightarrow> pystr \<Rightarrow> pystr \<Rightarrow> 'w world \<Rightarrow> pystr \<times> 'w world" where
  "FAQAgent_refine l q ans W =
     (case generate l (FAQAgent_refine_prompt q ans) (Some FAQAgent_refine_system) (llm_state W) of
        (Inr refined, w') \<Rightarrow>
          (strip (unicode W) (strip (unicode W) refined), W\<lparr>llm_state := w'\<rparr>)
      | (Inl e, w') \<Rightarrow> (ans, W\<lparr>llm_state := w'\<rparr>))"

text \<open>\<open>sum(1 for kw in content["keywords"] if kw in query_lower)\<close>.\<close>

definition score :: "pystr list \<Rightarrow> pystr \<Rightarrow> nat" where
  "score kws query_lower = length (filter (\<lambda>kw. str_in kw query_lower) kws)"

text \<open>
  The loop of \<open>handle\<close> over \<open>knowledge_base.items()\<close>. Its state is the three local
  variables \<open>best_match\<close>, \<open>best_score\<close> and \<open>topic\<close>; the loop variable \<open>topic\<close> is
  unbound (\<open>None\<close>) until the first iteration and is rebound at every iteration.
\<close>

fun faq_loop ::
  "(pystr \<times> content) list \<Rightarrow> pystr \<Rightarrow> content option \<times> nat \<times> pystr option \<Rightarrow>
   content option \<times> nat \<times> pystr option" where
  "faq_loop [] query_lower st = st"
| "faq_loop ((topic, c) # kb) query_lower (best_match, best_score, _) =
     (if score (keywords c) query_lower > best_score
      then faq_loop kb query_lower (Some c, score (keywords c) query_lower, Some topic)
      else faq_loop kb query_lower (best_match, best_score, Some topic))"

definition FAQAgent_no_info :: pystr where
  "FAQAgent_no_info = lit ''I don'' @ [0x27] @ lit ''t have information about that. I can help with: store hours, returns, shipping, payment, or contact info.''"

definition FAQAgent_handle ::
  "'w FAQAgent \<Rightarrow> pystr \<Rightarrow> 'w world \<Rightarrow> (py_error + AgentResponse) \<times> 'w world" where
  "FAQAgent_handle a q W0 =
     (let W = W0\<lparr>handled := handled W0 @ [FAQ_handle q]\<rparr>
      in case knowledge_base a of
           None \<Rightarrow> (Inl AttributeError, W)
         | Some kb \<Rightarrow>
             (case faq_loop kb (lower (unicode W) q) (None, 0, None) of
                (Some best_match, best_score, topic) \<Rightarrow>
                  (let (ans, W') = (case FAQAgent.llm a of
                                      Some l \<Rightarrow> FAQAgent_refine l q (answer best_match) W
                                    | None \<Rightarrow> (answer best_match, W))
                   in case topic of
                        None \<Rightarrow> (Inl NameError, W')
                      | Some t \<Rightarrow>
                          (Inr \<lparr>success = True, message = ans,
                                data = Some (StrDict [lit ''topic'' \<mapsto> t]),
                                needs_clarification = False\<rparr>, W'))
              | (None, best_score, topic) \<Rightarrow>
                  (Inr \<lparr>success = False, message = FAQAgent_no_info, data = None,
                        needs_clarification = False\<rparr>, W)))"

section \<open>The order status handler (agents/order_agent.py)\<close>

text \<open>\<open>orders\<close> is the dictionary loaded from the records file, and \<open>None\<close> when
  \<open>_load_data\<close> found no file.\<close>

record 'w OrderAgent =
  llm :: "'w LLMProvider option"
  orders :: "(pystr \<rightharpoonup> order) option"

text \<open>
  \<open>re.search(r'ORD-\d{5}', s)\<close>. \<open>match_here s\<close> says that the pattern matches at the
  start of \<open>s\<close>; the pattern has only one length, so a match at a position is the nine
  characters there. \<open>re_search\<close> scans the positions from the left and returns
  \<open>match.group(0)\<close> of the first match.
\<close>

definition match_here :: "unicode \<Rightarrow> pystr \<Rightarrow> bool" where
  "match_here U s \<longleftrightarrow>
     take 4 s = lit ''ORD-'' \<and> length (take 5 (drop 4 s)) = 5
     \<and> list_all (is_digit U) (take 5 (drop 4 s))"

fun re_search :: "unicode \<Rightarrow> pystr \<Rightarrow> pystr option" where
  "re_search U [] = None"
| "re_search U (c # cs) =
     (if match_here U (c # cs) then Some (take 9 (c # cs)) else re_search U cs)"

definition extract_order_id :: "unicode \<Rightarrow> pystr \<Rightarrow> pystr option" where
  "extract_order_id U q = re_search U (upper U q)"

text \<open>
  \<open>_format_order\<close>. The list comprehension over dictionaries calls \<open>item.get\<close>, which a
  plain string does not have (\<open>AttributeError\<close>); \<open>", ".join(items)\<close> raises
  \<open>TypeError\<close> at an element that is not a string.
\<close>

fun item_names :: "item list \<Rightarrow> py_error + pystr list" where
  "item_names [] = Inr []"
| "item_names (ItemDict d # its) =
     (case item_names its of
        Inl e \<Rightarrow> Inl e
      | Inr ns \<Rightarrow> Inr ((case d (lit ''name'') of None \<Rightarrow> [] | Some n \<Rightarrow> n) # ns))"
| "item_names (ItemStr s # its) = Inl AttributeError"

fun item_strings :: "item list \<Rightarrow> py_error + pystr list" where
  "item_strings [] = Inr []"
| "item_strings (ItemStr s # its) =
     (case item_strings its of Inl e \<Rightarrow> Inl e | Inr ss \<Rightarrow> Inr (s # ss))"
| "item_strings (ItemDict d # its) = Inl TypeError"

definition items_str :: "order \<Rightarrow> py_error + pystr" where
  "items_str ord =
     (case items ord of
        Some (ItemDict d # its) \<Rightarrow>
          (case item_names (ItemDict d # its) of Inl e \<Rightarrow> Inl e | Inr ns \<Rightarrow> Inr (join (lit '', '') ns))
      | Some (ItemStr s # its) \<Rightarrow>
          (case item_strings (ItemStr s # its) of Inl e \<Rightarrow> Inl e | Inr ss \<Rightarrow> Inr (join (lit '', '') ss))
      | _ \<Rightarrow> Inr (lit ''your items''))"

definition format_order :: "order \<Rightarrow> py_error + pystr" where
  "format_order ord =
     (case items_str ord of
        Inl e \<Rightarrow> Inl e
      | Inr its \<Rightarrow>
          Inr (lit ''Order '' @ order_id ord @ lit '' ('' @ its @ lit '') is '' @ status ord @ lit ''.'' @
               (if truthy (tracking ord)
                then lit '' Tracking: '' @ the (tracking ord) @ lit ''.'' else []) @
               (if truthy (delivery_date ord)
                then lit '' Expected delivery: '' @ the (delivery_date ord) @ lit ''.'' else [])))"

definition OrderAgent_refine_system :: pystr where
  "OrderAgent_refine_system = lit ''You are a friendly customer service bot. Convert the order status into a natural, conversational response. Return ONLY the final response - no options, no variations, just one single answer.''"

definition OrderAgent_refine_prompt :: "pystr \<Rightarrow> pystr \<Rightarrow> pystr" where
  "OrderAgent_refine_prompt q msg =
     lit ''Customer asked: '' @ dquote @ q @ dquote @ nl @ nl @
     lit ''            Order status: '' @ msg @ nl @ nl @
     lit ''            Rewrite this as a single, friendly response. Give ONLY ONE response, nothing else:''"

definition OrderAgent_refine ::
  "'w LLMProvider \<Rightarrow> pystr \<Rightarrow> pystr \<Rightarrow> 'w world \<Rightarrow> pystr \<times> 'w world" where
  "OrderAgent_refine l q msg W =
     (case generate l (OrderAgent_refine_prompt q msg) (Some OrderAgent_refine_system) (llm_state W) of
        (Inr refined, w') \<Rightarrow>
          (strip (unicode W) (strip (unicode W) refined), W\<lparr>llm_state := w'\<rparr>)
      | (Inl e, w') \<Rightarrow> (msg, W\<lparr>llm_state := w'\<rparr>))"

definition OrderAgent_ask_id :: pystr where
  "OrderAgent_ask_id = lit ''Please provide your order ID (format: ORD-12345).''"

definition OrderAgent_not_found :: "pystr \<Rightarrow> pystr" where
  "OrderAgent_not_found oid =
     lit ''Order '' @ oid @ lit '' not found. Please verify your order number or contact support@store.com.''"

definition OrderAgent_handle ::
  "'w OrderAgent \<Rightarrow> pystr \<Rightarrow> pystr option \<Rightarrow> 'w world \<Rightarrow>
   (py_error + AgentResponse) \<times> 'w world" where
  "OrderAgent_handle a q hint W0 =
     (let W = W0\<lparr>handled := handled W0 @ [Order_handle q hint]\<rparr>;
          oid = (if \<not> truthy hint then extract_order_id (unicode W) q else hint)
      in if \<not> truthy oid
         then (Inr \<lparr>success = False, message = OrderAgent_ask_id, data = None,
                    needs_clarification = True\<rparr>, W)
         else
           (case orders a of
              None \<Rightarrow> (Inl AttributeError, W)
            | Some recs \<Rightarrow>
                (case recs (the oid) of
                   None \<Rightarrow>
                     (Inr \<lparr>success = False, message = OrderAgent_not_found (the oid),
                           data = None, needs_clarification = False\<rparr>, W)
                 | Some ord \<Rightarrow>
                     (case format_order ord of
                        Inl e \<Rightarrow> (Inl e, W)
                      | Inr msg \<Rightarrow>
                          (let (msg', W') = (case OrderAgent.llm a of
                                               Some l \<Rightarrow> OrderAgent_refine l q msg W
                                             | None \<Rightarrow> (msg, W))
                           in (Inr \<lparr>success = True, message = msg',
                                    data = Some (OrderDict ord),
                                    needs_clarification = False\<rparr>, W'))))))"

section \<open>The router (router.py)\<close>

definition SYSTEM_PROMPT :: pystr where
  "SYSTEM_PROMPT =
     lit ''You are a customer service intent classifier.'' @ nl @
     nl @
     lit ''Classify queries into:'' @ nl @
     lit ''- FAQ: Questions about store hours, returns, shipping, payment, contact'' @ nl @
     lit ''- ORDER_STATUS: Order tracking questions (look for order IDs like ORD-XXXXX)'' @ nl @
     lit ''- UNCLEAR: Vague or ambiguous queries'' @ nl @
     nl @
     lit ''Extract entities:'' @ nl @
     lit ''- order_id: Order number if present (ORD-XXXXX)'' @ nl @
     nl @
     lit ''Provide:'' @ nl @
     lit ''- intent: The classification'' @ nl @
     lit ''- confidence: 0.0 to 1.0'' @ nl @
     lit ''- entities: Extracted data'' @ nl @
     lit ''- reasoning: Why you chose this''"

text \<open>The router object. \<open>unclear_count\<close> is its only mutable field.\<close>

record 'w LLMRouter =
  llm :: "'w LLMProvider"
  faq_agent :: "'w FAQAgent"
  order_agent :: "'w OrderAgent"
  unclear_count :: "pystr \<rightharpoonup> int"

text \<open>\<open>__init__\<close>; the two data files the handlers load are its parameters.\<close>

definition LLMRouter_init ::
  "'w LLMProvider \<Rightarrow> (pystr \<times> content) list option \<Rightarrow> (pystr \<rightharpoonup> order) option \<Rightarrow>
   'w LLMRouter" where
  "LLMRouter_init l kb recs =
     \<lparr>llm = l,
      faq_agent = \<lparr>FAQAgent.llm = Some l, knowledge_base = kb\<rparr>,
      order_agent = \<lparr>OrderAgent.llm = Some l, orders = recs\<rparr>,
      unclear_count = Map.empty\<rparr>"

definition escalate_message :: pystr where
  "escalate_message =
     lit ''Let me connect you with support:'' @ nl @
     bullet @ lit '' Email: support@store.com'' @ nl @
     bullet @ lit '' Phone: 1-800-SHOP-NOW''"

definition clarify_message :: pystr where
  "clarify_message =
     lit ''Could you clarify? Are you asking about:'' @ nl @
     bullet @ lit '' Store policies (hours, returns, shipping)?'' @ nl @
     bullet @ lit '' Order status (provide order ID: ORD-XXXXX)?''"

definition faq_fallback_message :: pystr where
  "faq_fallback_message = lit ''I don'' @ [0x27] @ lit ''t have that info. I can help with: hours, returns, shipping, payment, contact.''"

definition escalate :: "pystr \<Rightarrow> FinalResponse" where
  "escalate q =
     \<lparr>query = q, intent = UNCLEAR, confidence = 0.0, response = escalate_message,
      escalated = True\<rparr>"

definition handle_unclear ::
  "'w LLMRouter \<Rightarrow> pystr \<Rightarrow> RouterResponse \<Rightarrow> pystr \<Rightarrow> FinalResponse \<times> 'w LLMRouter" where
  "handle_unclear r q classification session_id =
     (let count = (case unclear_count r session_id of None \<Rightarrow> 0 | Some n \<Rightarrow> n)
      in if count = 0
         then (\<lparr>query = q, intent = UNCLEAR,
                 confidence = RouterResponse.confidence classification,
                 response = clarify_message, escalated = False\<rparr>,
               r\<lparr>unclear_count := (unclear_count r)(session_id \<mapsto> 1)\<rparr>)
         else (escalate q, r))"

text \<open>Step 4 of \<open>route\<close>: the handler's outcome, or the exception it raised, becomes
  the result of \<open>route\<close>.\<close>

definition agent_result ::
  "pystr \<Rightarrow> RouterResponse \<Rightarrow> py_error + AgentResponse \<Rightarrow> py_error + FinalResponse" where
  "agent_result q classification res =
     (case res of
        Inl e \<Rightarrow> Inl e
      | Inr agent_response \<Rightarrow>
          if needs_clarification agent_response
          then Inr \<lparr>query = q, intent = RouterResponse.intent classification,
                    confidence = RouterResponse.confidence classification,
                    response = message agent_response, escalated = False\<rparr>
          else if \<not> success agent_response
          then Inr \<lparr>query = q, intent = RouterResponse.intent classification,
                    confidence = RouterResponse.confidence classification,
                    response = (if RouterResponse.intent classification = FAQ
                                then faq_fallback_message else message agent_response),
                    escalated = False\<rparr>
          else Inr \<lparr>query = q, intent = RouterResponse.intent classification,
                    confidence = RouterResponse.confidence classification,
                    response = message agent_response, escalated = False\<rparr>)"

text \<open>
  \<open>route\<close>. The result is the response or the exception that leaves \<open>route\<close>, the
  router after the call and the world after the call. The line printed when the
  classification fails is not modelled.
\<close>

definition route ::
  "'w LLMRouter \<Rightarrow> pystr \<Rightarrow> pystr \<Rightarrow> 'w world \<Rightarrow>
   (py_error + FinalResponse) \<times> 'w LLMRouter \<times> 'w world" where
  "route r q session_id W0 =
     (case generate_json (llm r) q SYSTEM_PROMPT (llm_state W0) of
        (Inl e, w) \<Rightarrow> (Inr (escalate q), r, W0\<lparr>llm_state := w\<rparr>)
      | (Inr classification, w) \<Rightarrow>
          (let W = W0\<lparr>llm_state := w\<rparr>
           in if RouterResponse.intent classification = UNCLEAR
                 \<or> RouterResponse.confidence classification < 0.7
              then (let (resp, r') = handle_unclear r q classification session_id
                    in (Inr resp, r', W))
              else if RouterResponse.intent classification = FAQ
              then (let (res, W') = FAQAgent_handle (faq_agent r) q W
                    in (agent_result q classification res, r, W'))
              else if RouterResponse.intent classification = ORDER_STATUS
              then (let (res, W') = OrderAgent_handle (order_agent r) q
                                      (entities classification (lit ''order_id'')) W
                    in (agent_result q classification res, r, W'))
              else (Inr (escalate q), r, W)))"

definition reset_session :: "'w LLMRouter \<Rightarrow> pystr \<Rightarrow> 'w LLMRouter" where
  "reset_session r session_id =
     (if session_id \<in> dom (unclear_count r)
      then r\<lparr>unclear_count := (unclear_count r)(session_id := None)\<rparr>
      else r)"

text \<open>A run of the router: a sequence of calls of its two public operations, each
  \<open>route\<close> with its query and session.\<close>

datatype router_call = Route pystr pystr | Reset pystr

fun run :: "router_call list \<Rightarrow> 'w LLMRouter \<times> 'w world \<Rightarrow> 'w LLMRouter \<times> 'w world" where
  "run [] st = st"
| "run (Route q sid # cs) (r, W) = run cs (snd (route r q sid W))"
| "run (Reset sid # cs) (r, W) = run cs (reset_session r sid, W)"

text \<open>The invariant of the counters: an entry, where there is one, is 1.\<close>

definition count_inv :: "'w LLMRouter \<Rightarrow> bool" where
  "count_inv r \<longleftrightarrow> (\<forall>sid n. unclear_count r sid = Some n \<longrightarrow> n = 1)"

section \<open>The specification's notions\<close>

text \<open>
  The definitions of this section follow the words of the specification and of the
  claims, not the code; the theorems compare them with the code.

  An order identifier: \<open>ORD-\<close> followed by five digits, nine characters in all.
\<close>

definition order_id_form :: "unicode \<Rightarrow> pystr \<Rightarrow> bool" where
  "order_id_form U s \<longleftrightarrow>
     length s = 9 \<and> take 4 s = lit ''ORD-'' \<and> list_all (is_digit U) (drop 4 s)"

text \<open>
  \<open>ORD-\<close> followed by exactly five digits at the start of \<open>s\<close>: five digits, and no
  sixth one after them. \<open>has_exact_id U s\<close>: some position of \<open>s\<close> starts such a text.
\<close>

definition exact_here :: "unicode \<Rightarrow> pystr \<Rightarrow> bool" where
  "exact_here U s \<longleftrightarrow>
     order_id_form U (take 9 s)
     \<and> (case drop 9 s of [] \<Rightarrow> True | c # _ \<Rightarrow> \<not> is_digit U c)"

fun has_exact_id :: "unicode \<Rightarrow> pystr \<Rightarrow> bool" where
  "has_exact_id U [] = False"
| "has_exact_id U (c # cs) = (exact_here U (c # cs) \<or> has_exact_id U cs)"

text \<open>
  The status message of an order as the claim words it: the name an item is listed under
  is its \<open>name\<close> field (empty when a structured item has none) or the item itself when it
  is a plain string; the item list is the names joined with commas, or \<open>your items\<close>
  when there are no items; the tracking and the delivery sentences are there exactly when
  the record has the value.
\<close>

fun is_dict :: "item \<Rightarrow> bool" where
  "is_dict (ItemDict d) = True"
| "is_dict (ItemStr s) = False"

fun item_name :: "item \<Rightarrow> pystr" where
  "item_name (ItemDict d) = (case d (lit ''name'') of None \<Rightarrow> [] | Some n \<Rightarrow> n)"
| "item_name (ItemStr s) = s"

definition listed_items :: "order \<Rightarrow> pystr" where
  "listed_items ord =
     (case items ord of
        None \<Rightarrow> lit ''your items''
      | Some its \<Rightarrow> if its = [] then lit ''your items'' else join (lit '', '') (map item_name its))"

definition status_message :: "order \<Rightarrow> pystr" where
  "status_message ord =
     lit ''Order '' @ order_id ord @ lit '' ('' @ listed_items ord @ lit '') is '' @ status ord @
     lit ''.'' @
     (case tracking ord of None \<Rightarrow> [] | Some t \<Rightarrow> lit '' Tracking: '' @ t @ lit ''.'') @
     (case delivery_date ord of None \<Rightarrow> [] | Some d \<Rightarrow> lit '' Expected delivery: '' @ d @ lit ''.'')"

text \<open>
  The amended status message: a sentence is there exactly when the record has the value
  and the value is not the empty string.
\<close>

definition sentence :: "pystr \<Rightarrow> pystr option \<Rightarrow> pystr" where
  "sentence label v =
     (case v of None \<Rightarrow> [] | Some t \<Rightarrow> if t = [] then [] else label @ t @ lit ''.'')"

definition order_message :: "order \<Rightarrow> pystr" where
  "order_message ord =
     lit ''Order '' @ order_id ord @ lit '' ('' @ listed_items ord @ lit '') is '' @ status ord @
     lit ''.'' @
     sentence (lit '' Tracking: '') (tracking ord) @
     sentence (lit '' Expected delivery: '') (delivery_date ord)"

text \<open>The items of the record, if it has any, are all structured records or all plain
  strings.\<close>

definition uniform_items :: "order \<Rightarrow> bool" where
  "uniform_items ord \<longleftrightarrow>
     (case items ord of
        None \<Rightarrow> True
      | Some its \<Rightarrow> list_all is_dict its \<or> list_all (\<lambda>i. \<not> is_dict i) its)"

section \<open>A scripted provider and example data\<close>

text \<open>
  A Unicode database for the examples. Its decimal digits are those of Unicode 14.0
  (\<open>digit_zeros\<close> lists the digit zero of each of the 66 scripts that have decimal
  digits; the other nine follow it) and its white space is what \<open>str.isspace\<close> accepts
  there. Its case mapping is the one of the ASCII letters and leaves every other code
  point as it is: on the strings of the examples, which have no other letters, this is
  what every version of the database does.
\<close>

definition digit_zeros :: "codepoint list" where
  "digit_zeros =
     [0x30, 0x660, 0x6F0, 0x7C0, 0x966, 0x9E6, 0xA66, 0xAE6,
      0xB66, 0xBE6, 0xC66, 0xCE6, 0xD66, 0xDE6, 0xE50, 0xED0,
      0xF20, 0x1040, 0x1090, 0x17E0, 0x1810, 0x1946, 0x19D0, 0x1A80,
      0x1A90, 0x1B50, 0x1BB0, 0x1C40, 0x1C50, 0xA620, 0xA8D0, 0xA900,
      0xA9D0, 0xA9F0, 0xAA50, 0xABF0, 0xFF10, 0x104A0, 0x10D30, 0x11066,
      0x110F0, 0x11136, 0x111D0, 0x112F0, 0x11450, 0x114D0, 0x11650, 0x116C0,
      0x11730, 0x118E0, 0x11950, 0x11C50, 0x11D50, 0x11DA0, 0x16A60, 0x16AC0,
      0x16B50, 0x1D7CE, 0x1D7D8, 0x1D7E2, 0x1D7EC, 0x1D7F6, 0x1E140, 0x1E2F0,
      0x1E950, 0x1FBF0]"

definition white_space :: "codepoint list" where
  "white_space =
     [0x9, 0xA, 0xB, 0xC, 0xD, 0x1C, 0x1D, 0x1E,
      0x1F, 0x20, 0x85, 0xA0, 0x1680, 0x2000, 0x2001, 0x2002,
      0x2003, 0x2004, 0x2005, 0x2006, 0x2007, 0x2008, 0x2009, 0x200A,
      0x2028, 0x2029, 0x202F, 0x205F, 0x3000]"

definition ascii_upper :: "codepoint \<Rightarrow> codepoint" where
  "ascii_upper c = (if 0x61 \<le> c \<and> c \<le> 0x7A then c - 0x20 else c)"

definition ascii_lower :: "codepoint \<Rightarrow> codepoint" where
  "ascii_lower c = (if 0x41 \<le> c \<and> c \<le> 0x5A then c + 0x20 else c)"

definition example_unicode :: unicode where
  "example_unicode =
     \<lparr>upper = map ascii_upper,
      lower = map ascii_lower,
      isspace = (\<lambda>c. c \<in> set white_space),
      is_digit = (\<lambda>c. list_ex (\<lambda>z. z \<le> c \<and> c < z + 10) digit_zeros)\<rparr>"

text \<open>
  For running the model on concrete inputs: a provider whose state is the list of the
  answers it has still to give, one list for \<open>generate_json\<close> and one for \<open>generate\<close>.
  Each call takes the next answer; a call with no answer left raises.
\<close>

type_synonym script = "(py_error + RouterResponse) list \<times> (py_error + pystr) list"

definition scripted :: "script LLMProvider" where
  "scripted =
     \<lparr>generate = (\<lambda>p s (js, gs). case gs of [] \<Rightarrow> (Inl CapabilityError, (js, gs))
                                         | g # gs' \<Rightarrow> (g, (js, gs'))),
      generate_json = (\<lambda>p s (js, gs). case js of [] \<Rightarrow> (Inl CapabilityError, (js, gs))
                                              | j # js' \<Rightarrow> (j, (js', gs)))\<rparr>"

definition script_world ::
  "(py_error + RouterResponse) list \<Rightarrow> (py_error + pystr) list \<Rightarrow> script world" where
  "script_world js gs = \<lparr>llm_state = (js, gs), unicode = example_unicode, handled = []\<rparr>"

definition classified :: "Intent \<Rightarrow> real \<Rightarrow> (pystr \<rightharpoonup> pystr) \<Rightarrow> RouterResponse" where
  "classified i c es =
     \<lparr>RouterResponse.intent = i, RouterResponse.confidence = c, entities = es, reasoning = []\<rparr>"

definition example_kb :: "(pystr \<times> content) list" where
  "example_kb =
     [(lit ''hours'',
       \<lparr>keywords = [lit ''hours'', lit ''open''], answer = lit ''We are open 9am-6pm.''\<rparr>),
      (lit ''returns'',
       \<lparr>keywords = [lit ''return'', lit ''refund''], answer = lit ''Returns within 30 days.''\<rparr>)]"

definition example_order :: order where
  "example_order =
     \<lparr>order_id = lit ''ORD-12345'', status = lit ''shipped'',
      items = Some [ItemDict [lit ''name'' \<mapsto> lit ''Mouse''],
                    ItemDict [lit ''name'' \<mapsto> lit ''Keyboard'']],
      tracking = Some (lit ''1Z999''), delivery_date = None\<rparr>"

definition example_orders :: "pystr \<rightharpoonup> order" where
  "example_orders = [lit ''ORD-12345'' \<mapsto> example_order]"

definition example_router :: "script LLMRouter" where
  "example_router = LLMRouter_init scripted (Some example_kb) (Some example_orders)"

lemmas fixtures = scripted_def classified_def example_kb_def example_order_def example_orders_def
  example_router_def script_world_def LLMRouter_init_def lit_def

lemmas example_unicode_defs = example_unicode_def ascii_upper_def ascii_lower_def
  digit_zeros_def white_space_def

section \<open>Substrings\<close>

text \<open>\<open>str_in\<close> decides whether a string occurs inside another.\<close>

lemma str_in_prefix: "str_in kw (kw @ post)"
proof (cases "kw @ post")
  case Nil
  then show ?thesis by simp
next
  case (Cons c cs)
  have "take (length kw) (kw @ post) = kw" by simp
  with Cons show ?thesis by simp
qed

lemma str_in_append: "str_in kw (pre @ kw @ post)"
  by (induction pre) (auto simp: str_in_prefix)

lemma str_in_iff: "str_in kw s \<longleftrightarrow> (\<exists>pre post. s = pre @ kw @ post)"
proof
  show "str_in kw s \<Longrightarrow> \<exists>pre post. s = pre @ kw @ post"
  proof (induction s)
    case Nil
    then show ?case by simp
  next
    case (Cons c cs)
    show ?case
    proof (cases "take (length kw) (c # cs) = kw")
      case True
      then have "c # cs = [] @ kw @ drop (length kw) (c # cs)"
        by (metis append_Nil append_take_drop_id)
      then show ?thesis by blast
    next
      case False
      with Cons.prems have "str_in kw cs" by simp
      with Cons.IH obtain pre post where "cs = pre @ kw @ post" by blast
      then have "c # cs = (c # pre) @ kw @ post" by simp
      then show ?thesis by blast
    qed
  qed
next
  show "\<exists>pre post. s = pre @ kw @ post \<Longrightarrow> str_in kw s"
    using str_in_append by blast
qed

section \<open>The router: gating, clarification and escalation\<close>

subsection \<open>Gating\<close>

text \<open>
  Every handler call is logged, no call changes the Unicode database, and a reset removes
  at most the entry of its session.
\<close>

lemma handled_FAQ: "handled (snd (FAQAgent_handle a q W)) = handled W @ [FAQ_handle q]"
  by (auto simp: FAQAgent_handle_def FAQAgent_refine_def Let_def split: option.splits prod.splits sum.splits)

lemma handled_Order: "handled (snd (OrderAgent_handle a q h W)) = handled W @ [Order_handle q h]"
  by (auto simp: OrderAgent_handle_def OrderAgent_refine_def Let_def split: option.splits prod.splits sum.splits)

lemma unicode_FAQ: "unicode (snd (FAQAgent_handle a q W)) = unicode W"
  by (auto simp: FAQAgent_handle_def FAQAgent_refine_def Let_def split: option.splits prod.splits sum.splits)

lemma unicode_Order: "unicode (snd (OrderAgent_handle a q h W)) = unicode W"
  by (auto simp: OrderAgent_handle_def OrderAgent_refine_def Let_def split: option.splits prod.splits sum.splits)

lemma unicode_route: "unicode (snd (snd (route r q sid W))) = unicode W"
  by (cases "generate_json (llm r) q SYSTEM_PROMPT (llm_state W)")
     (auto simp: route_def Let_def case_prod_beta unicode_FAQ unicode_Order split: sum.splits)

lemma reset_session_eq: "reset_session r sid = r\<lparr>unclear_count := (unclear_count r)(sid := None)\<rparr>"
  by (auto simp: reset_session_def domIff fun_upd_idem)

text \<open>
  Claim C1. When the classification succeeds and the intent is \<open>UNCLEAR\<close> or the
  confidence is below 0.7, \<open>route\<close> is the unclear handling of the query and no handler
  is invoked (the log of handler calls is unchanged). Whenever \<open>route\<close> does invoke a
  handler, the intent is \<open>FAQ\<close> or \<open>ORDER_STATUS\<close> and the confidence is at least 0.7.
\<close>

theorem route_gating:
  assumes "generate_json (llm r) q SYSTEM_PROMPT (llm_state W) = (Inr c, w)"
  shows "(RouterResponse.intent c = UNCLEAR \<or> RouterResponse.confidence c < 0.7 \<longrightarrow>
            route r q sid W =
              (Inr (fst (handle_unclear r q c sid)), snd (handle_unclear r q c sid),
               W\<lparr>llm_state := w\<rparr>)
            \<and> handled (snd (snd (route r q sid W))) = handled W)
       \<and> (handled (snd (snd (route r q sid W))) \<noteq> handled W \<longrightarrow>
            (RouterResponse.intent c = FAQ \<or> RouterResponse.intent c = ORDER_STATUS)
            \<and> 0.7 \<le> RouterResponse.confidence c)"
  using assms
  by (cases "RouterResponse.intent c")
     (auto simp: route_def Let_def split: prod.splits)

text \<open>
  The gating theorem at two classifications of the example router: \<open>FAQ\<close> with
  confidence 0.5 invokes no handler, \<open>FAQ\<close> with confidence 0.92 invokes one.
\<close>

theorem route_gating_witness:
  "generate_json (llm example_router) (lit ''hi'') SYSTEM_PROMPT
      (llm_state (script_world [Inr (classified FAQ 0.5 Map.empty)] [])) =
      (Inr (classified FAQ 0.5 Map.empty), ([], []))
   \<and> RouterResponse.confidence (classified FAQ 0.5 Map.empty) < 0.7
   \<and> handled (snd (snd (route example_router (lit ''hi'') (lit ''s1'')
        (script_world [Inr (classified FAQ 0.5 Map.empty)] [])))) = []
   \<and> generate_json (llm example_router) (lit ''When do you open?'') SYSTEM_PROMPT
      (llm_state (script_world [Inr (classified FAQ 0.92 Map.empty)] [])) =
      (Inr (classified FAQ 0.92 Map.empty), ([], []))
   \<and> handled (snd (snd (route example_router (lit ''When do you open?'') (lit ''s1'')
        (script_world [Inr (classified FAQ 0.92 Map.empty)] [])))) \<noteq> []
   \<and> 0.7 \<le> RouterResponse.confidence (classified FAQ 0.92 Map.empty)"
  using route_gating [of example_router "lit ''hi''" "script_world [Inr (classified FAQ 0.5 Map.empty)] []"
          "classified FAQ 0.5 Map.empty" "([], [])" "lit ''s1''"]
        route_gating [of example_router "lit ''When do you open?''"
          "script_world [Inr (classified FAQ 0.92 Map.empty)] []"
          "classified FAQ 0.92 Map.empty" "([], [])" "lit ''s1''"]
  by (simp add: fixtures handled_FAQ route_def Let_def case_prod_beta)

text \<open>
  Conversely, a confident \<open>FAQ\<close> or \<open>ORDER_STATUS\<close> classification invokes the handler of
  its intent, once, the order handler with the \<open>order_id\<close> entity as its hint.
\<close>

lemma route_dispatches:
  assumes "generate_json (llm r) q SYSTEM_PROMPT (llm_state W) = (Inr c, w)"
      and "0.7 \<le> RouterResponse.confidence c"
  shows "RouterResponse.intent c = FAQ \<Longrightarrow>
           handled (snd (snd (route r q sid W))) = handled W @ [FAQ_handle q]"
    and "RouterResponse.intent c = ORDER_STATUS \<Longrightarrow>
           handled (snd (snd (route r q sid W))) =
             handled W @ [Order_handle q (entities c (lit ''order_id''))]"
  using assms
  by (simp_all add: route_def Let_def case_prod_beta handled_FAQ handled_Order)

subsection \<open>Clarification first, escalation second\<close>

text \<open>
  Claim C2. A call handled as unclear in a session whose counter is absent or 0 returns
  the clarification response (intent \<open>UNCLEAR\<close>, the classifier's confidence, not
  escalated) and sets the counter to 1; with a counter of 1 or more it returns the
  escalation response and leaves the router as it was. The clarification message asks
  the customer to clarify and names the two categories, store policies and order status;
  the escalation message holds the support e-mail address and telephone number.
\<close>

theorem unclear_clarify_then_escalate:
  assumes "generate_json (llm r) q SYSTEM_PROMPT (llm_state W) = (Inr c, w)"
      and "RouterResponse.intent c = UNCLEAR \<or> RouterResponse.confidence c < 0.7"
  shows "(unclear_count r sid = None \<or> unclear_count r sid = Some 0 \<longrightarrow>
            fst (route r q sid W) =
              Inr \<lparr>query = q, intent = UNCLEAR, confidence = RouterResponse.confidence c,
                   response = clarify_message, escalated = False\<rparr>
            \<and> fst (snd (route r q sid W)) = r\<lparr>unclear_count := (unclear_count r)(sid \<mapsto> 1)\<rparr>)
       \<and> ((\<exists>n. unclear_count r sid = Some n \<and> 1 \<le> n) \<longrightarrow>
            fst (route r q sid W) =
              Inr \<lparr>query = q, intent = UNCLEAR, confidence = 0,
                   response = escalate_message, escalated = True\<rparr>
            \<and> fst (snd (route r q sid W)) = r)
       \<and> str_in (lit ''Could you clarify?'') clarify_message
       \<and> str_in (lit ''Store policies'') clarify_message
       \<and> str_in (lit ''Order status'') clarify_message
       \<and> str_in (lit ''support@store.com'') escalate_message
       \<and> str_in (lit ''1-800-SHOP-NOW'') escalate_message"
proof -
  have "str_in (lit ''Could you clarify?'') clarify_message"
    by (simp add: clarify_message_def nl_def bullet_def lit_def)
  moreover have "str_in (lit ''Store policies'') clarify_message"
    by (simp add: clarify_message_def nl_def bullet_def lit_def)
  moreover have "str_in (lit ''Order status'') clarify_message"
    by (simp add: clarify_message_def nl_def bullet_def lit_def)
  moreover have "str_in (lit ''support@store.com'') escalate_message"
    by (simp add: escalate_message_def nl_def bullet_def lit_def)
  moreover have "str_in (lit ''1-800-SHOP-NOW'') escalate_message"
    by (simp add: escalate_message_def nl_def bullet_def lit_def)
  ultimately show ?thesis
    using assms by (auto simp: route_def handle_unclear_def escalate_def Let_def)
qed

text \<open>
  The scenario of the query \<open>hi\<close> classified \<open>UNCLEAR\<close> with confidence 0.3, on a fresh
  session and on a session whose counter is 1.
\<close>

theorem unclear_clarify_then_escalate_witness:
  "generate_json (llm example_router) (lit ''hi'') SYSTEM_PROMPT
      (llm_state (script_world [Inr (classified UNCLEAR 0.3 Map.empty)] [])) =
      (Inr (classified UNCLEAR 0.3 Map.empty), ([], []))
   \<and> RouterResponse.intent (classified UNCLEAR 0.3 Map.empty) = UNCLEAR
   \<and> unclear_count example_router (lit ''s1'') = None
   \<and> fst (route example_router (lit ''hi'') (lit ''s1'')
        (script_world [Inr (classified UNCLEAR 0.3 Map.empty)] [])) =
      Inr \<lparr>query = lit ''hi'', intent = UNCLEAR, confidence = 0.3,
           response = clarify_message, escalated = False\<rparr>
   \<and> unclear_count (example_router\<lparr>unclear_count := [lit ''s1'' \<mapsto> 1]\<rparr>) (lit ''s1'') = Some 1
   \<and> fst (route (example_router\<lparr>unclear_count := [lit ''s1'' \<mapsto> 1]\<rparr>) (lit ''hi'') (lit ''s1'')
        (script_world [Inr (classified UNCLEAR 0.3 Map.empty)] [])) =
      Inr \<lparr>query = lit ''hi'', intent = UNCLEAR, confidence = 0,
           response = escalate_message, escalated = True\<rparr>"
  using unclear_clarify_then_escalate [of example_router "lit ''hi''"
          "script_world [Inr (classified UNCLEAR 0.3 Map.empty)] []"
          "classified UNCLEAR 0.3 Map.empty" "([], [])" "lit ''s1''"]
        unclear_clarify_then_escalate [of "example_router\<lparr>unclear_count := [lit ''s1'' \<mapsto> 1]\<rparr>" "lit ''hi''"
          "script_world [Inr (classified UNCLEAR 0.3 Map.empty)] []"
          "classified UNCLEAR 0.3 Map.empty" "([], [])" "lit ''s1''"]
  by (simp add: fixtures)

subsection \<open>Classification failure\<close>

text \<open>
  Claim C5. When the classification call raises, \<open>route\<close> returns the fixed
  escalation response (intent \<open>UNCLEAR\<close>, confidence 0, escalated), whose message holds
  the support e-mail address and telephone number. The router is returned unchanged, and
  the call behaves the same whatever the counters are: they are neither read nor written.
\<close>

theorem classification_failure_escalates:
  assumes "generate_json (llm r) q SYSTEM_PROMPT (llm_state W) = (Inl e, w)"
  shows "route r q sid W =
           (Inr \<lparr>query = q, intent = UNCLEAR, confidence = 0, response = escalate_message,
                 escalated = True\<rparr>, r, W\<lparr>llm_state := w\<rparr>)
       \<and> str_in (lit ''support@store.com'') escalate_message
       \<and> str_in (lit ''1-800-SHOP-NOW'') escalate_message
       \<and> (\<forall>m. route (r\<lparr>unclear_count := m\<rparr>) q sid W =
                (fst (route r q sid W), r\<lparr>unclear_count := m\<rparr>, snd (snd (route r q sid W))))"
proof -
  have "str_in (lit ''support@store.com'') escalate_message"
    by (simp add: escalate_message_def nl_def bullet_def lit_def)
  moreover have "str_in (lit ''1-800-SHOP-NOW'') escalate_message"
    by (simp add: escalate_message_def nl_def bullet_def lit_def)
  ultimately show ?thesis
    using assms by (simp add: route_def escalate_def)
qed

text \<open>
  A provider whose only scripted answer is a failure.
\<close>

theorem classification_failure_escalates_witness:
  "generate_json (llm example_router) (lit ''hi'') SYSTEM_PROMPT
      (llm_state (script_world [Inl CapabilityError] [])) = (Inl CapabilityError, ([], []))
   \<and> route example_router (lit ''hi'') (lit ''s1'') (script_world [Inl CapabilityError] []) =
       (Inr \<lparr>query = lit ''hi'', intent = UNCLEAR, confidence = 0, response = escalate_message,
             escalated = True\<rparr>, example_router, script_world [] [])"
  using classification_failure_escalates [of example_router "lit ''hi''"
          "script_world [Inl CapabilityError] []" CapabilityError "([], [])" "lit ''s1''"]
  by (simp add: fixtures)

subsection \<open>Resetting a session\<close>

text \<open>
  Claim C7. \<open>reset_session\<close> removes the entry of the session and nothing else, does
  nothing when there is no entry, and is idempotent; an unclear call that follows it in
  the same session gets the clarification response, not the escalation, and the counter
  is 1 again.
\<close>

theorem reset_session_first_time:
  "reset_session r sid = r\<lparr>unclear_count := (unclear_count r)(sid := None)\<rparr>
   \<and> (sid \<notin> dom (unclear_count r) \<longrightarrow> reset_session r sid = r)
   \<and> reset_session (reset_session r sid) sid = reset_session r sid
   \<and> (generate_json (llm r) q SYSTEM_PROMPT (llm_state W) = (Inr c, w)
        \<and> (RouterResponse.intent c = UNCLEAR \<or> RouterResponse.confidence c < 0.7) \<longrightarrow>
        fst (route (reset_session r sid) q sid W) =
          Inr \<lparr>query = q, intent = UNCLEAR, confidence = RouterResponse.confidence c,
               response = clarify_message, escalated = False\<rparr>
        \<and> unclear_count (fst (snd (route (reset_session r sid) q sid W))) sid = Some 1)"
  by (auto simp: reset_session_eq route_def handle_unclear_def Let_def)

text \<open>
  A router with the counter of session \<open>s1\<close> at 1: resetting \<open>s2\<close> changes nothing, and
  after resetting \<open>s1\<close> the next unclear call of \<open>s1\<close> asks for clarification.
\<close>

theorem reset_session_first_time_witness:
  "(lit ''s2'') \<notin> dom (unclear_count (example_router\<lparr>unclear_count := [lit ''s1'' \<mapsto> 1]\<rparr>))
   \<and> reset_session (example_router\<lparr>unclear_count := [lit ''s1'' \<mapsto> 1]\<rparr>) (lit ''s2'') =
       example_router\<lparr>unclear_count := [lit ''s1'' \<mapsto> 1]\<rparr>
   \<and> generate_json (llm (example_router\<lparr>unclear_count := [lit ''s1'' \<mapsto> 1]\<rparr>)) (lit ''hi'') SYSTEM_PROMPT
      (llm_state (script_world [Inr (classified UNCLEAR 0.3 Map.empty)] [])) =
      (Inr (classified UNCLEAR 0.3 Map.empty), ([], []))
   \<and> RouterResponse.intent (classified UNCLEAR 0.3 Map.empty) = UNCLEAR
   \<and> fst (route (reset_session (example_router\<lparr>unclear_count := [lit ''s1'' \<mapsto> 1]\<rparr>) (lit ''s1''))
            (lit ''hi'') (lit ''s1'') (script_world [Inr (classified UNCLEAR 0.3 Map.empty)] [])) =
      Inr \<lparr>query = lit ''hi'', intent = UNCLEAR, confidence = 0.3,
           response = clarify_message, escalated = False\<rparr>"
  using reset_session_first_time [of "example_router\<lparr>unclear_count := [lit ''s1'' \<mapsto> 1]\<rparr>" "lit ''s2''"
          "lit ''hi''" "script_world [Inr (classified UNCLEAR 0.3 Map.empty)] []"
          "classified UNCLEAR 0.3 Map.empty" "([], [])"]
        reset_session_first_time [of "example_router\<lparr>unclear_count := [lit ''s1'' \<mapsto> 1]\<rparr>" "lit ''s1''"
          "lit ''hi''" "script_world [Inr (classified UNCLEAR 0.3 Map.empty)] []"
          "classified UNCLEAR 0.3 Map.empty" "([], [])"]
  by (simp add: fixtures route_def handle_unclear_def reset_session_eq Let_def)

subsection \<open>The counters are 1\<close>

text \<open>
  The invariant holds of a new router and every public operation keeps it.
\<close>

lemma count_inv_handle_unclear: "count_inv r \<Longrightarrow> count_inv (snd (handle_unclear r q c sid))"
  by (auto simp: count_inv_def handle_unclear_def Let_def)

lemma count_inv_route: "count_inv r \<Longrightarrow> count_inv (fst (snd (route r q sid W)))"
  by (auto simp: route_def Let_def case_prod_beta count_inv_handle_unclear
           split: prod.splits sum.splits)

lemma count_inv_reset: "count_inv r \<Longrightarrow> count_inv (reset_session r sid)"
  by (auto simp: count_inv_def reset_session_eq)

lemma count_inv_run: "count_inv (fst st) \<Longrightarrow> count_inv (fst (run cs st))"
proof (induction cs arbitrary: st)
  case Nil
  then show ?case by simp
next
  case (Cons c cs)
  obtain r W where st: "st = (r, W)" by (cases st)
  show ?case
  proof (cases c)
    case (Route q sid)
    with Cons st show ?thesis by (simp add: count_inv_route)
  next
    case (Reset sid)
    with Cons st show ?thesis by (simp add: count_inv_reset)
  qed
qed

lemma count_inv_init: "count_inv (LLMRouter_init l kb recs)"
  by (simp add: count_inv_def LLMRouter_init_def)

text \<open>
  Claim C10. After any sequence of \<open>route\<close> and \<open>reset_session\<close> calls on a newly
  constructed router, whatever the provider answers, every entry of the counter map is 1.
\<close>

theorem unclear_count_only_one:
  "unclear_count (fst (run cs (LLMRouter_init l kb recs, W))) sid = Some n \<Longrightarrow> n = 1"
  using count_inv_run [of "(LLMRouter_init l kb recs, W)" cs] count_inv_init [of l kb recs]
  by (simp add: count_inv_def)

text \<open>
  A run of four calls, after which session \<open>s1\<close> has the entry 1 and session \<open>s2\<close> has
  none.
\<close>

theorem unclear_count_only_one_witness:
  "unclear_count (fst (run [Route (lit ''hi'') (lit ''s1''), Route (lit ''hi'') (lit ''s2''), Reset (lit ''s2''), Route (lit ''hm'') (lit ''s1'')]
       (example_router,
        script_world [Inr (classified UNCLEAR 0.3 Map.empty), Inr (classified FAQ 0.4 Map.empty),
                      Inr (classified UNCLEAR 0.9 Map.empty)] []))) (lit ''s1'') = Some 1
   \<and> unclear_count (fst (run [Route (lit ''hi'') (lit ''s1''), Route (lit ''hi'') (lit ''s2''), Reset (lit ''s2''), Route (lit ''hm'') (lit ''s1'')]
       (example_router,
        script_world [Inr (classified UNCLEAR 0.3 Map.empty), Inr (classified FAQ 0.4 Map.empty),
                      Inr (classified UNCLEAR 0.9 Map.empty)] []))) (lit ''s2'') = None"
  using unclear_count_only_one [of "[Route (lit ''hi'') (lit ''s1''), Route (lit ''hi'') (lit ''s2''), Reset (lit ''s2''), Route (lit ''hm'') (lit ''s1'')]"
     scripted "Some example_kb" "Some example_orders"
     "script_world [Inr (classified UNCLEAR 0.3 Map.empty), Inr (classified FAQ 0.4 Map.empty),
                      Inr (classified UNCLEAR 0.9 Map.empty)] []" "lit ''s1''" 1]
  by (simp add: fixtures route_def handle_unclear_def reset_session_eq Let_def escalate_def)

section \<open>The FAQ handler: the reported topic\<close>

text \<open>
  After the loop, the variable \<open>topic\<close> holds the last key of the knowledge base,
  whichever topic matched; this is the topic a successful outcome reports.
\<close>

lemma faq_loop_topic_last:
  "kb \<noteq> [] \<Longrightarrow> snd (snd (faq_loop kb ql st)) = Some (fst (last kb))"
proof (induction kb ql st rule: faq_loop.induct)
  case (1 ql st)
  then show ?case by simp
next
  case (2 topic c kb ql best_match best_score uu)
  then show ?case by (cases kb) auto
qed

lemma FAQAgent_handle_topic_last:
  assumes "knowledge_base a = Some kb" and "fst (FAQAgent_handle a q W) = Inr resp" and "success resp"
  shows "data resp = Some (StrDict [lit ''topic'' \<mapsto> fst (last kb)])"
proof -
  obtain bm bs tp where l: "faq_loop kb (lower (unicode W) q) (None, 0, None) = (bm, bs, tp)"
    by (cases "faq_loop kb (lower (unicode W) q) (None, 0, None)")
  have "kb \<noteq> []" using assms l
    by (auto simp: FAQAgent_handle_def Let_def split: option.splits prod.splits)
  then have "tp = Some (fst (last kb))"
    using faq_loop_topic_last [of kb "lower (unicode W) q" "(None, 0, None)"] l by simp
  then show ?thesis using assms l
    by (auto simp: FAQAgent_handle_def Let_def split: option.splits prod.splits)
qed

text \<open>
  Claim C3. The claim asks for the name of the matched topic under the key \<open>topic\<close>.
  In the example knowledge base the query \<open>What are your hours?\<close> matches the topic
  \<open>hours\<close> only, and the outcome carries that topic's answer, but the reported topic is
  \<open>returns\<close>, the last key of the base.
\<close>

theorem faq_topic_is_last_key:
  "fst (FAQAgent_handle (faq_agent example_router) (lit ''What are your hours?'')
          (script_world [] [])) =
     Inr \<lparr>success = True, message = lit ''We are open 9am-6pm.'',
          data = Some (StrDict [lit ''topic'' \<mapsto> lit ''returns'']), needs_clarification = False\<rparr>"
  by (simp add: fixtures example_unicode_defs FAQAgent_handle_def FAQAgent_refine_def Let_def
        score_def)

section \<open>The conversational rewrite\<close>

text \<open>
  A failed call makes \<open>_refine\<close> return the message it was given.
\<close>

lemma FAQAgent_refine_failure:
  "generate l (FAQAgent_refine_prompt q ans) (Some FAQAgent_refine_system) (llm_state W) = (Inl e, w)
   \<Longrightarrow> FAQAgent_refine l q ans W = (ans, W\<lparr>llm_state := w\<rparr>)"
  by (simp add: FAQAgent_refine_def)

lemma OrderAgent_refine_failure:
  "generate l (OrderAgent_refine_prompt q msg) (Some OrderAgent_refine_system) (llm_state W) = (Inl e, w)
   \<Longrightarrow> OrderAgent_refine l q msg W = (msg, W\<lparr>llm_state := w\<rparr>)"
  by (simp add: OrderAgent_refine_def)

text \<open>
  Claim C6. For each handler: if the rewrite call on the factual message fails, \<open>handle\<close>
  returns the outcome it returns without a provider, that is, with the factual message
  and the same \<open>success\<close>, \<open>data\<close> and \<open>needs_clarification\<close>; in particular the failure
  of the rewrite never makes \<open>handle\<close> raise.
\<close>

theorem rewrite_failure_falls_back:
  "(FAQAgent.llm a = Some l \<and>
    (\<forall>resp. fst (FAQAgent_handle (a\<lparr>FAQAgent.llm := None\<rparr>) q W) = Inr resp \<and> success resp \<longrightarrow>
       isl (fst (generate l (FAQAgent_refine_prompt q (message resp))
                   (Some FAQAgent_refine_system) (llm_state W))))
    \<longrightarrow> fst (FAQAgent_handle a q W) = fst (FAQAgent_handle (a\<lparr>FAQAgent.llm := None\<rparr>) q W))
   \<and> (OrderAgent.llm b = Some l \<and>
    (\<forall>resp. fst (OrderAgent_handle (b\<lparr>OrderAgent.llm := None\<rparr>) q hint W) = Inr resp \<and> success resp \<longrightarrow>
       isl (fst (generate l (OrderAgent_refine_prompt q (message resp))
                   (Some OrderAgent_refine_system) (llm_state W))))
    \<longrightarrow> fst (OrderAgent_handle b q hint W) = fst (OrderAgent_handle (b\<lparr>OrderAgent.llm := None\<rparr>) q hint W))"
proof (intro conjI impI)
  assume h: "FAQAgent.llm a = Some l \<and>
    (\<forall>resp. fst (FAQAgent_handle (a\<lparr>FAQAgent.llm := None\<rparr>) q W) = Inr resp \<and> success resp \<longrightarrow>
       isl (fst (generate l (FAQAgent_refine_prompt q (message resp))
                   (Some FAQAgent_refine_system) (llm_state W))))"
  then show "fst (FAQAgent_handle a q W) = fst (FAQAgent_handle (a\<lparr>FAQAgent.llm := None\<rparr>) q W)"
    by (auto simp: FAQAgent_handle_def FAQAgent_refine_def Let_def isl_def
             split: option.splits prod.splits sum.splits)
next
  assume h: "OrderAgent.llm b = Some l \<and>
    (\<forall>resp. fst (OrderAgent_handle (b\<lparr>OrderAgent.llm := None\<rparr>) q hint W) = Inr resp \<and> success resp \<longrightarrow>
       isl (fst (generate l (OrderAgent_refine_prompt q (message resp))
                   (Some OrderAgent_refine_system) (llm_state W))))"
  then show "fst (OrderAgent_handle b q hint W) = fst (OrderAgent_handle (b\<lparr>OrderAgent.llm := None\<rparr>) q hint W)"
    by (auto simp: OrderAgent_handle_def OrderAgent_refine_def Let_def isl_def
             split: option.splits prod.splits sum.splits)
qed

text \<open>
  Both handlers of the example router, with a provider whose rewrite call raises.
\<close>

theorem rewrite_failure_falls_back_witness:
  "FAQAgent.llm (faq_agent example_router) = Some scripted
   \<and> isl (fst (generate scripted
                   (FAQAgent_refine_prompt (lit ''What are your hours?'') (lit ''We are open 9am-6pm.''))
                   (Some FAQAgent_refine_system) (llm_state (script_world [] [Inl CapabilityError]))))
   \<and> fst (FAQAgent_handle (faq_agent example_router) (lit ''What are your hours?'')
            (script_world [] [Inl CapabilityError])) =
       Inr \<lparr>success = True, message = lit ''We are open 9am-6pm.'',
            data = Some (StrDict [lit ''topic'' \<mapsto> lit ''returns'']), needs_clarification = False\<rparr>
   \<and> OrderAgent.llm (order_agent example_router) = Some scripted
   \<and> fst (OrderAgent_handle (order_agent example_router) (lit ''Where is ORD-12345?'') None
            (script_world [] [Inl CapabilityError])) =
       Inr \<lparr>success = True,
            message = lit ''Order ORD-12345 (Mouse, Keyboard) is shipped. Tracking: 1Z999.'',
            data = Some (OrderDict example_order), needs_clarification = False\<rparr>"
  using rewrite_failure_falls_back [of "faq_agent example_router" scripted "lit ''What are your hours?''"
          "script_world [] [Inl CapabilityError]" "order_agent example_router" None]
        rewrite_failure_falls_back [of "faq_agent example_router" scripted "lit ''Where is ORD-12345?''"
          "script_world [] [Inl CapabilityError]" "order_agent example_router" None]
  by (simp add: fixtures example_unicode_defs FAQAgent_handle_def OrderAgent_handle_def Let_def
        score_def extract_order_id_def match_here_def format_order_def items_str_def)

section \<open>The order status handler\<close>

subsection \<open>Extraction of the order identifier\<close>

text \<open>
  The pattern matches at a position exactly when the nine characters there are an order
  identifier; the search finds the leftmost such position. This holds whatever the
  Unicode database is.
\<close>

lemma match_here_form: "match_here U s = order_id_form U (take 9 s)"
  by (auto simp: match_here_def order_id_form_def drop_take min_def)

lemma form_prefix: "order_id_form U oid \<Longrightarrow> take 9 (oid @ post) = oid"
  by (simp add: order_id_form_def)

lemma re_search_None:
  "re_search U s = None \<longleftrightarrow> \<not> (\<exists>pre oid post. s = pre @ oid @ post \<and> order_id_form U oid)"
proof (induction s)
  case Nil
  then show ?case by (auto simp: order_id_form_def)
next
  case (Cons c cs)
  show ?case
  proof (cases "match_here U (c # cs)")
    case True
    then have "c # cs = [] @ take 9 (c # cs) @ drop 9 (c # cs) \<and> order_id_form U (take 9 (c # cs))"
      by (simp add: match_here_form)
    then have "\<exists>pre oid post. c # cs = pre @ oid @ post \<and> order_id_form U oid"
      by blast
    with True show ?thesis by simp
  next
    case False
    have "(\<exists>pre oid post. c # cs = pre @ oid @ post \<and> order_id_form U oid)
          \<longleftrightarrow> (\<exists>pre oid post. cs = pre @ oid @ post \<and> order_id_form U oid)" (is "?L \<longleftrightarrow> ?R")
    proof
      assume ?L
      then obtain pre oid post where o: "c # cs = pre @ oid @ post" "order_id_form U oid" by blast
      show ?R
      proof (cases pre)
        case Nil
        with o have "take 9 (c # cs) = oid" using form_prefix by force
        with o False show ?thesis by (simp add: match_here_form)
      next
        case (Cons a pre')
        with o have "cs = pre' @ oid @ post" by simp
        with o show ?thesis by blast
      qed
    next
      assume ?R
      then obtain pre oid post where "cs = pre @ oid @ post" "order_id_form U oid" by blast
      then have "c # cs = (c # pre) @ oid @ post \<and> order_id_form U oid" by simp
      then show ?L by blast
    qed
    with False Cons show ?thesis by simp
  qed
qed

lemma re_search_Some:
  "re_search U s = Some oid \<Longrightarrow>
     order_id_form U oid \<and>
     (\<exists>pre post. s = pre @ oid @ post \<and>
        (\<forall>pre' oid' post'. s = pre' @ oid' @ post' \<and> order_id_form U oid' \<longrightarrow>
           length pre \<le> length pre'))"
proof (induction s)
  case Nil
  then show ?case by simp
next
  case (Cons c cs)
  show ?case
  proof (cases "match_here U (c # cs)")
    case True
    with Cons.prems have oid: "oid = take 9 (c # cs)" by simp
    with True have "order_id_form U oid" by (simp add: match_here_form)
    moreover have "c # cs = [] @ oid @ drop 9 (c # cs)" using oid by simp
    ultimately show ?thesis by (metis le0 list.size(3))
  next
    case False
    with Cons.prems have "re_search U cs = Some oid" by simp
    with Cons.IH obtain pre post where f: "order_id_form U oid" and s: "cs = pre @ oid @ post"
      and m: "\<forall>pre' oid' post'. cs = pre' @ oid' @ post' \<and> order_id_form U oid' \<longrightarrow>
                length pre \<le> length pre'"
      by blast
    have "length (c # pre) \<le> length pre'"
      if o: "c # cs = pre' @ oid' @ post'" "order_id_form U oid'" for pre' oid' post'
    proof (cases pre')
      case Nil
      with o have "take 9 (c # cs) = oid'" using form_prefix by force
      with o False show ?thesis by (simp add: match_here_form)
    next
      case (Cons a p)
      with o have "cs = p @ oid' @ post'" by simp
      with m o have "length pre \<le> length p" by blast
      with Cons show ?thesis by simp
    qed
    moreover have "c # cs = (c # pre) @ oid @ post" using s by simp
    ultimately show ?thesis using f by blast
  qed
qed

text \<open>
  Claim C4, as stated, fails: in \<open>ORD-123456\<close> the text \<open>ORD-\<close> is followed by six
  digits, so the query holds no \<open>ORD-\<close> followed by exactly five digits, and yet the
  extraction yields \<open>ORD-12345\<close>.
\<close>

theorem extract_order_id_exact_counterexample:
  "\<not> has_exact_id example_unicode (upper example_unicode (lit ''ORD-123456''))
   \<and> extract_order_id example_unicode (lit ''ORD-123456'') = Some (lit ''ORD-12345'')"
  by (simp add: extract_order_id_def match_here_def exact_here_def order_id_form_def
        example_unicode_defs lit_def)

text \<open>
  Claim C4, amended. Whatever the Unicode database: the extraction yields nothing exactly
  when the upper-cased query has no occurrence of \<open>ORD-\<close> followed by five characters of
  the class \<open>\d\<close> (any Unicode decimal digits; whatever follows them); what it yields is
  such an identifier, and it is the leftmost occurrence in the upper-cased query.
\<close>

theorem extract_order_id_first_occurrence:
  "(extract_order_id U q = None \<longleftrightarrow>
      \<not> (\<exists>pre oid post. upper U q = pre @ oid @ post \<and> order_id_form U oid))
   \<and> (extract_order_id U q = Some oid \<longrightarrow>
        order_id_form U oid \<and>
        (\<exists>pre post. upper U q = pre @ oid @ post \<and>
           (\<forall>pre' oid' post'. upper U q = pre' @ oid' @ post' \<and> order_id_form U oid' \<longrightarrow>
              length pre \<le> length pre')))"
  unfolding extract_order_id_def
  using re_search_None [of U "upper U q"] re_search_Some [of U "upper U q" oid] by blast

text \<open>
  A lower-case identifier is found and returned in upper case; five full-width digits
  (\<open>U+FF11\<close> to \<open>U+FF15\<close>) are digits too; three digits are not enough.
\<close>

theorem extract_order_id_first_occurrence_witness:
  "extract_order_id example_unicode (lit ''where is ord-12345?'') = Some (lit ''ORD-12345'')
   \<and> order_id_form example_unicode (lit ''ORD-12345'')
   \<and> extract_order_id example_unicode (lit ''ord-'' @ [0xFF11, 0xFF12, 0xFF13, 0xFF14, 0xFF15]) =
       Some (lit ''ORD-'' @ [0xFF11, 0xFF12, 0xFF13, 0xFF14, 0xFF15])
   \<and> order_id_form example_unicode (lit ''ORD-'' @ [0xFF11, 0xFF12, 0xFF13, 0xFF14, 0xFF15])
   \<and> extract_order_id example_unicode (lit ''Where is ORD-123?'') = None"
  using extract_order_id_first_occurrence [of example_unicode "lit ''where is ord-12345?''"
          "lit ''ORD-12345''"]
        extract_order_id_first_occurrence [of example_unicode
          "lit ''ord-'' @ [0xFF11, 0xFF12, 0xFF13, 0xFF14, 0xFF15]"
          "lit ''ORD-'' @ [0xFF11, 0xFF12, 0xFF13, 0xFF14, 0xFF15]"]
  by (simp add: extract_order_id_def match_here_def order_id_form_def example_unicode_defs lit_def)

subsection \<open>The status message\<close>

text \<open>
  On items of one kind the two joins of \<open>_format_order\<close> give the listed names; on a
  list that mixes the kinds the one that is chosen raises.
\<close>

lemma item_names_dicts: "list_all is_dict its \<Longrightarrow> item_names its = Inr (map item_name its)"
  by (induction its rule: item_names.induct) auto

lemma item_strings_strs:
  "list_all (\<lambda>i. \<not> is_dict i) its \<Longrightarrow> item_strings its = Inr (map item_name its)"
  by (induction its rule: item_strings.induct) auto

lemma item_names_mixed: "\<not> list_all is_dict its \<Longrightarrow> item_names its = Inl AttributeError"
  by (induction its rule: item_names.induct) auto

lemma item_strings_mixed:
  "\<not> list_all (\<lambda>i. \<not> is_dict i) its \<Longrightarrow> item_strings its = Inl TypeError"
  by (induction its rule: item_strings.induct) auto

lemma items_str_uniform:
  assumes "uniform_items ord"
  shows "items_str ord = Inr (listed_items ord)"
proof (cases "items ord")
  case None
  then show ?thesis by (simp add: items_str_def listed_items_def)
next
  case (Some its)
  show ?thesis
  proof (cases its)
    case Nil
    with Some show ?thesis by (simp add: items_str_def listed_items_def)
  next
    case (Cons i its')
    from assms Some have h: "list_all is_dict its \<or> list_all (\<lambda>i. \<not> is_dict i) its"
      by (simp add: uniform_items_def)
    show ?thesis
    proof (cases i)
      case (ItemDict d)
      with h Cons have "list_all is_dict its" by auto
      then have "item_names its = Inr (map item_name its)" by (rule item_names_dicts)
      with Some Cons ItemDict show ?thesis by (simp add: items_str_def listed_items_def)
    next
      case (ItemStr s)
      with h Cons have "list_all (\<lambda>i. \<not> is_dict i) its" by auto
      then have "item_strings its = Inr (map item_name its)" by (rule item_strings_strs)
      with Some Cons ItemStr show ?thesis by (simp add: items_str_def listed_items_def)
    qed
  qed
qed

lemma format_order_mixed_raises:
  assumes "\<not> uniform_items ord"
  shows "isl (format_order ord)"
proof -
  from assms obtain its where its: "items ord = Some its"
    and nd: "\<not> list_all is_dict its" and ns: "\<not> list_all (\<lambda>i. \<not> is_dict i) its"
    by (auto simp: uniform_items_def split: option.splits)
  from nd obtain i its' where c: "its = i # its'" by (cases its) auto
  have "isl (items_str ord)"
  proof (cases i)
    case (ItemDict d)
    with its c item_names_mixed [OF nd] show ?thesis by (simp add: items_str_def)
  next
    case (ItemStr s)
    with its c item_strings_mixed [OF ns] show ?thesis by (simp add: items_str_def)
  qed
  then show ?thesis by (auto simp: format_order_def isl_def)
qed

text \<open>
  Claim C8, as stated, fails. A record whose tracking value is the empty string has the
  value, so the claim's message ends with a tracking sentence, but \<open>_format_order\<close>
  tests the value for truth and appends none. And a record whose item list mixes a
  structured record with a plain string has no message at all: the call raises.
\<close>

theorem format_order_claimed_counterexample:
  "format_order (example_order\<lparr>tracking := Some []\<rparr>) =
     Inr (lit ''Order ORD-12345 (Mouse, Keyboard) is shipped.'')
   \<and> status_message (example_order\<lparr>tracking := Some []\<rparr>) =
       lit ''Order ORD-12345 (Mouse, Keyboard) is shipped. Tracking: .''
   \<and> format_order (example_order\<lparr>items := Some [ItemDict [lit ''name'' \<mapsto> lit ''Mouse''],
                                                  ItemStr (lit ''Keyboard'')]\<rparr>) =
       Inl AttributeError"
  by (simp add: example_order_def format_order_def items_str_def status_message_def
        listed_items_def lit_def)

text \<open>
  Claim C8, amended. For every order record whose items, if it has any, are all
  structured records or all plain strings, \<open>_format_order\<close> returns the message made of
  the identifier, the item names joined with commas (or \<open>your items\<close> when the list is
  empty or absent), the status, then the tracking sentence exactly when the record has a
  tracking value that is not the empty string, and the delivery sentence exactly when it
  has a delivery date that is not the empty string.
\<close>

theorem format_order_message:
  "uniform_items ord \<Longrightarrow> format_order ord = Inr (order_message ord)"
  using items_str_uniform [of ord]
  by (cases "tracking ord"; cases "delivery_date ord")
     (simp_all add: format_order_def order_message_def sentence_def)

text \<open>
  The order of the specification's scenario, shipped with a tracking number and no
  delivery date; and an order of plain strings with an empty tracking value and a
  delivery date.
\<close>

theorem format_order_message_witness:
  "uniform_items example_order
   \<and> format_order example_order =
       Inr (lit ''Order ORD-12345 (Mouse, Keyboard) is shipped. Tracking: 1Z999.'')
   \<and> uniform_items (example_order\<lparr>items := Some [ItemStr (lit ''Mouse'')], tracking := Some [],
                                    delivery_date := Some (lit ''2025-01-20'')\<rparr>)
   \<and> format_order (example_order\<lparr>items := Some [ItemStr (lit ''Mouse'')], tracking := Some [],
                                   delivery_date := Some (lit ''2025-01-20'')\<rparr>) =
       Inr (lit ''Order ORD-12345 (Mouse) is shipped. Expected delivery: 2025-01-20.'')"
  using format_order_message [of example_order]
        format_order_message [of "example_order\<lparr>items := Some [ItemStr (lit ''Mouse'')],
                                    tracking := Some [], delivery_date := Some (lit ''2025-01-20'')\<rparr>"]
  by (simp add: example_order_def uniform_items_def order_message_def sentence_def
        listed_items_def lit_def)

subsection \<open>Unknown orders\<close>

text \<open>
  Claim C9. With the records loaded, an identifier of the valid form that is not among
  them, given as the hint or extracted from the query, makes \<open>handle\<close> return (not
  raise) an outcome with \<open>success = False\<close> and \<open>needs_clarification = False\<close> whose
  message holds the identifier and the support address.
\<close>

theorem unknown_order_not_found:
  assumes "orders a = Some recs" and "order_id_form U oid" and "recs oid = None"
  shows "fst (OrderAgent_handle a q (Some oid) W) =
           Inr \<lparr>success = False, message = OrderAgent_not_found oid, data = None,
                needs_clarification = False\<rparr>
       \<and> (\<not> truthy hint \<and> extract_order_id (unicode W) q = Some oid \<longrightarrow>
            fst (OrderAgent_handle a q hint W) =
              Inr \<lparr>success = False, message = OrderAgent_not_found oid, data = None,
                   needs_clarification = False\<rparr>)
       \<and> str_in oid (OrderAgent_not_found oid)
       \<and> str_in (lit ''support@store.com'') (OrderAgent_not_found oid)"
proof -
  from assms(2) have ne: "oid \<noteq> []" by (auto simp: order_id_form_def)
  have "str_in oid (OrderAgent_not_found oid)"
    unfolding OrderAgent_not_found_def by (rule str_in_append)
  moreover have "str_in (lit ''support@store.com'') (OrderAgent_not_found oid)"
    using str_in_append [of "lit ''support@store.com''"
            "lit ''Order '' @ oid @ lit '' not found. Please verify your order number or contact ''"
            "lit ''.''"]
    by (simp add: OrderAgent_not_found_def lit_def)
  ultimately show ?thesis using assms ne
    by (simp add: OrderAgent_handle_def Let_def)
qed

text \<open>
  The identifier \<open>ORD-99999\<close>, unknown to the example records, as a hint and inside the query.
\<close>

theorem unknown_order_not_found_witness:
  "orders (order_agent example_router) = Some example_orders
   \<and> order_id_form example_unicode (lit ''ORD-99999'')
   \<and> example_orders (lit ''ORD-99999'') = None
   \<and> fst (OrderAgent_handle (order_agent example_router) (lit ''Where is my order?'')
            (Some (lit ''ORD-99999'')) (script_world [] [])) =
       Inr \<lparr>success = False,
            message = lit ''Order ORD-99999 not found. Please verify your order number or contact support@store.com.'',
            data = None, needs_clarification = False\<rparr>
   \<and> \<not> truthy None
   \<and> extract_order_id (unicode (script_world [] [])) (lit ''where is ord-99999'') =
       Some (lit ''ORD-99999'')
   \<and> fst (OrderAgent_handle (order_agent example_router) (lit ''where is ord-99999'') None
            (script_world [] [])) =
       Inr \<lparr>success = False,
            message = lit ''Order ORD-99999 not found. Please verify your order number or contact support@store.com.'',
            data = None, needs_clarification = False\<rparr>"
  using unknown_order_not_found [of "order_agent example_router" example_orders example_unicode
          "lit ''ORD-99999''" "lit ''where is ord-99999''" "script_world [] []" None]
        unknown_order_not_found [of "order_agent example_router" example_orders example_unicode
          "lit ''ORD-99999''" "lit ''Where is my order?''" "script_world [] []" None]
  by (simp add: fixtures example_unicode_defs order_id_form_def OrderAgent_not_found_def
        extract_order_id_def match_here_def)

end
